theory Spec2Isabelle
  imports Complex_Main "HOL-Library.Sublist"
begin

section \<open>Python strings\<close>

text \<open>
  A Python \<open>str\<close> is a sequence of Unicode code points; \<open>len\<close>, slicing and the
  regular expressions of the tools all count code points. A string is therefore a list
  of natural numbers, and \<open>asc\<close> writes an ASCII literal of the source.
\<close>

type_synonym pystr = "nat list"

definition asc :: "string \<Rightarrow> pystr" where
  "asc s = map of_char s"

text \<open>
  \<open>str.strip()\<close>, \<open>str.isspace()\<close> and the class \<open>\s\<close> of \<open>re\<close> share one table of
  whitespace code points (CPython's \<open>_PyUnicode_IsWhitespace\<close>).
\<close>

definition isspace :: "nat \<Rightarrow> bool" where
  "isspace c \<longleftrightarrow>
     (9 \<le> c \<and> c \<le> 13) \<or> (28 \<le> c \<and> c \<le> 32) \<or> c = 133 \<or> c = 160 \<or> c = 5760 \<or>
     (8192 \<le> c \<and> c \<le> 8202) \<or> c = 8232 \<or> c = 8233 \<or> c = 8239 \<or> c = 8287 \<or> c = 12288"

definition strip :: "pystr \<Rightarrow> pystr" where
  "strip s = rev (dropWhile isspace (rev (dropWhile isspace s)))"

text \<open>The guard \<open>not s or not s.strip()\<close> of the three validating tools.\<close>

definition blank :: "pystr \<Rightarrow> bool" where
  "blank s \<longleftrightarrow> s = [] \<or> strip s = []"

text \<open>
  The class \<open>\d\<close> of a \<open>str\<close> pattern is the Unicode decimal digits. The ASCII digits are
  written out; the table of the other decimal digits belongs to the Unicode database
  and is the parameter \<open>nd\<close> (no decimal digit is a whitespace character).
\<close>

definition isdecimal :: "(nat \<Rightarrow> bool) \<Rightarrow> nat \<Rightarrow> bool" where
  "isdecimal nd c \<longleftrightarrow> (48 \<le> c \<and> c \<le> 57) \<or> (128 \<le> c \<and> \<not> isspace c \<and> nd c)"

section \<open>The regular expressions of the calculator\<close>

text \<open>
  \<open>number_prefix\<close> matches \<open>\d+\.?\d*\<close> at the head of a string and returns the matched
  text and the rest. Every quantifier of the source's patterns is greedy and is followed
  by a character outside its own class, so the backtracking matcher of \<open>re\<close> finds a
  match exactly where the greedy left-to-right scan does, and finds the same one.
\<close>

definition number_prefix :: "(nat \<Rightarrow> bool) \<Rightarrow> pystr \<Rightarrow> (pystr \<times> pystr) option" where
  "number_prefix nd s =
     (let ds = takeWhile (isdecimal nd) s; r = dropWhile (isdecimal nd) s in
      if ds = [] then None
      else (case r of
              [] \<Rightarrow> Some (ds, [])
            | c # r' \<Rightarrow>
                if c = 46
                then Some (ds @ [46] @ takeWhile (isdecimal nd) r', dropWhile (isdecimal nd) r')
                else Some (ds, r)))"

definition skip_ws :: "pystr \<Rightarrow> pystr" where
  "skip_ws s = dropWhile isspace s"

text \<open>A pattern answers the two groups of a match at the head of the string and the rest.\<close>

type_synonym pattern = "pystr \<Rightarrow> ((pystr \<times> pystr) \<times> pystr) option"

text \<open>\<^verbatim>\<open>(\d+\.?\d*)\s*%\s*of\s*(\d+\.?\d*)\<close>\<close>

definition pat_percent_of :: "(nat \<Rightarrow> bool) \<Rightarrow> pattern" where
  "pat_percent_of nd s =
     (case number_prefix nd s of
        None \<Rightarrow> None
      | Some (x, r1) \<Rightarrow>
          (case skip_ws r1 of
             [] \<Rightarrow> None
           | c # r2 \<Rightarrow>
               if c \<noteq> 37 then None
               else (case skip_ws r2 of
                       o1 # o2 # r3 \<Rightarrow>
                         if o1 = 111 \<and> o2 = 102
                         then (case number_prefix nd (skip_ws r3) of
                                 None \<Rightarrow> None
                               | Some (y, r4) \<Rightarrow> Some ((x, y), r4))
                         else None
                     | _ \<Rightarrow> None)))"

text \<open>\<^verbatim>\<open>(\d+\.?\d*)\s*%\s*\*\s*(\d+\.?\d*)\<close>\<close>

definition pat_percent_times :: "(nat \<Rightarrow> bool) \<Rightarrow> pattern" where
  "pat_percent_times nd s =
     (case number_prefix nd s of
        None \<Rightarrow> None
      | Some (x, r1) \<Rightarrow>
          (case skip_ws r1 of
             [] \<Rightarrow> None
           | c # r2 \<Rightarrow>
               if c \<noteq> 37 then None
               else (case skip_ws r2 of
                       [] \<Rightarrow> None
                     | t # r3 \<Rightarrow>
                         if t \<noteq> 42 then None
                         else (case number_prefix nd (skip_ws r3) of
                                 None \<Rightarrow> None
                               | Some (y, r4) \<Rightarrow> Some ((x, y), r4)))))"

text \<open>\<^verbatim>\<open>(\d+\.?\d*)\s*\*\s*(\d+\.?\d*)\s*%\<close>\<close>

definition pat_times_percent :: "(nat \<Rightarrow> bool) \<Rightarrow> pattern" where
  "pat_times_percent nd s =
     (case number_prefix nd s of
        None \<Rightarrow> None
      | Some (x, r1) \<Rightarrow>
          (case skip_ws r1 of
             [] \<Rightarrow> None
           | t # r2 \<Rightarrow>
               if t \<noteq> 42 then None
               else (case number_prefix nd (skip_ws r2) of
                       None \<Rightarrow> None
                     | Some (y, r3) \<Rightarrow>
                         (case skip_ws r3 of
                            [] \<Rightarrow> None
                          | c # r4 \<Rightarrow> if c = 37 then Some ((x, y), r4) else None))))"

text \<open>\<^verbatim>\<open>(\d+\.?\d*)%\<close>, the pattern of the last rewriting step; it has one group.\<close>

definition pat_bare_percent :: "(nat \<Rightarrow> bool) \<Rightarrow> pattern" where
  "pat_bare_percent nd s =
     (case number_prefix nd s of
        None \<Rightarrow> None
      | Some (x, r1) \<Rightarrow>
          (case r1 of
             [] \<Rightarrow> None
           | c # r2 \<Rightarrow> if c = 37 then Some ((x, []), r2) else None))"

text \<open>
  \<open>re.sub\<close>: scan from the left; at a position where the pattern matches, emit the
  replacement and go on after the match, otherwise keep the character. No pattern of
  the source matches the empty string; the length test only makes the recursion
  well-founded for an arbitrary \<open>pattern\<close>.
\<close>

fun re_sub :: "pattern \<Rightarrow> (pystr \<times> pystr \<Rightarrow> pystr) \<Rightarrow> pystr \<Rightarrow> pystr" where
  "re_sub p f [] = []"
| "re_sub p f (c # cs) =
     (case p (c # cs) of
        None \<Rightarrow> c # re_sub p f cs
      | Some (g, rest) \<Rightarrow>
          if length rest \<le> length cs then f g @ re_sub p f rest
          else c # re_sub p f cs)"

text \<open>The replacement functions of \<open>percent_patterns\<close> and of the last step.\<close>

definition repl_percent_first :: "pystr \<times> pystr \<Rightarrow> pystr" where
  "repl_percent_first g = asc ''('' @ fst g @ asc '' / 100) * '' @ snd g"

definition repl_percent_second :: "pystr \<times> pystr \<Rightarrow> pystr" where
  "repl_percent_second g = fst g @ asc '' * ('' @ snd g @ asc '' / 100)''"

definition repl_bare_percent :: "pystr \<times> pystr \<Rightarrow> pystr" where
  "repl_bare_percent g = asc ''('' @ fst g @ asc ''/100)''"

definition percent_patterns :: "(nat \<Rightarrow> bool) \<Rightarrow> (pattern \<times> (pystr \<times> pystr \<Rightarrow> pystr)) list" where
  "percent_patterns nd =
     [(pat_percent_of nd, repl_percent_first),
      (pat_percent_times nd, repl_percent_first),
      (pat_times_percent nd, repl_percent_second)]"

text \<open>The loop \<open>for pattern, replacement in percent_patterns\<close>.\<close>

definition percent_rewrite :: "(nat \<Rightarrow> bool) \<Rightarrow> pystr \<Rightarrow> pystr" where
  "percent_rewrite nd e = fold (\<lambda>(p, f) acc. re_sub p f acc) (percent_patterns nd) e"

definition bare_percent :: "(nat \<Rightarrow> bool) \<Rightarrow> pystr \<Rightarrow> pystr" where
  "bare_percent nd e = re_sub (pat_bare_percent nd) repl_bare_percent e"

text \<open>
  The validation \<^verbatim>\<open>re.match(r'^[\d\s\+\-\*\/\(\)\.\%]+$', expression)\<close>: the string is
  not empty and every character is in the class (a final newline, which \<open>$\<close> would
  let pass, is in the class as well).
\<close>

definition allowed_char :: "(nat \<Rightarrow> bool) \<Rightarrow> nat \<Rightarrow> bool" where
  "allowed_char nd c \<longleftrightarrow>
     isdecimal nd c \<or> isspace c \<or> c = 43 \<or> c = 45 \<or> c = 42 \<or> c = 47 \<or> c = 40 \<or> c = 41 \<or>
     c = 46 \<or> c = 37"

definition valid_expression :: "(nat \<Rightarrow> bool) \<Rightarrow> pystr \<Rightarrow> bool" where
  "valid_expression nd e \<longleftrightarrow> e \<noteq> [] \<and> list_all (allowed_char nd) e"

section \<open>Values, exceptions and number formatting\<close>

text \<open>
  An exception that \<open>except Exception\<close> catches, as the handlers see it: the class they
  dispatch on and the text \<open>str(e)\<close>.
\<close>

datatype exn_class = ZeroDivisionError | SyntaxError | OtherException

datatype pyexn = Exn exn_class pystr

text \<open>
  A float is an IEEE binary64 value: a finite value (held exactly, as a rational), the
  negative zero, an infinity or a NaN.
\<close>

datatype pyfloat = Finite rat | NegZero | PosInf | NegInf | NaN

text \<open>
  What \<open>eval\<close> can answer on the calculator's alphabet: an \<open>int\<close>, a \<open>float\<close>, or another
  object (the empty tuple, \<open>Ellipsis\<close>, a complex number). The tools only format and
  round a value before they compare it, and on such an object one of these raises
  before any text is returned: the first \<open>f\<close> format on a tuple or on \<open>Ellipsis\<close>, and
  \<open>round\<close>, after the two formats, on a complex number. \<open>PyOther\<close> keeps the object as
  that exception, which is all the response shows of it.
\<close>

datatype pyval = PyInt int | PyFloat pyfloat | PyOther pyexn

text \<open>Rounding a quotient \<open>n / d\<close> (\<open>d > 0\<close>) to the nearest integer, ties to even.\<close>

definition round_half_even :: "int \<Rightarrow> int \<Rightarrow> int" where
  "round_half_even n d =
     (let q = n div d; r = n mod d in
      if 2 * r < d then q else if d < 2 * r then q + 1 else if even q then q else q + 1)"

text \<open>The number of bits of a positive integer (\<open>int.bit_length\<close>).\<close>

function bit_length :: "int \<Rightarrow> int" where
  "bit_length n = (if n \<le> 0 then 0 else 1 + bit_length (n div 2))"
  by pat_completeness auto

termination
  by (relation "measure nat") auto

declare bit_length.simps [simp del]

text \<open>\<open>\<lfloor>log\<^sub>2 (n / d)\<rfloor>\<close> for positive \<open>n\<close> and \<open>d\<close>.\<close>

definition floor_log2 :: "int \<Rightarrow> int \<Rightarrow> int" where
  "floor_log2 n d =
     (let k = bit_length n - bit_length d in
      if d * 2 ^ nat k \<le> n * 2 ^ nat (- k) then k else k - 1)"

text \<open>
  The binary64 value nearest to a rational, ties to even: 53 bits of precision, the
  least exponent of a unit in the last place \<open>-1074\<close>, overflow to an infinity from
  \<open>2\<^sup>1\<^sup>0\<^sup>2\<^sup>4\<close> on.
\<close>

definition round_double :: "rat \<Rightarrow> pyfloat" where
  "round_double q =
     (if q = 0 then Finite 0
      else
        let (n, d) = quotient_of \<bar>q\<bar>;
            e = max (floor_log2 n d - 52) (- 1074);
            m = round_half_even (n * 2 ^ nat (- e)) (d * 2 ^ nat e)
        in if m = 0 then (if q < 0 then NegZero else Finite 0)
           else if 0 \<le> e \<and> 2 ^ 1024 \<le> m * 2 ^ nat e then (if q < 0 then NegInf else PosInf)
           else Finite (sgn q * of_int (m * 2 ^ nat e) / of_int (2 ^ nat (- e))))"

fun digits :: "nat \<Rightarrow> pystr" where
  "digits n = (if n < 10 then [48 + n] else digits (n div 10) @ [48 + n mod 10])"

declare digits.simps [simp del]

text \<open>The thousands separator of the \<open>,\<close> format option.\<close>

fun group3 :: "pystr \<Rightarrow> pystr" where
  "group3 ds =
     (if length ds \<le> 3 then ds
      else group3 (take (length ds - 3) ds) @ [44] @ drop (length ds - 3) ds)"

declare group3.simps [simp del]

definition zero_pad :: "nat \<Rightarrow> pystr \<Rightarrow> pystr" where
  "zero_pad p ds = replicate (p - length ds) 48 @ ds"

text \<open>
  The magnitude \<open>a \<ge> 0\<close> in fixed notation with \<open>p\<close> decimals: the exact value is
  rounded, ties to even.
\<close>

definition fixed_digits :: "bool \<Rightarrow> nat \<Rightarrow> rat \<Rightarrow> pystr" where
  "fixed_digits comma p a =
     (let (n, d) = quotient_of a;
          r = nat (round_half_even (n * 10 ^ p) d);
          ip = digits (r div 10 ^ p)
      in (if comma then group3 ip else ip) @
         (if p = 0 then [] else [46] @ zero_pad p (digits (r mod 10 ^ p))))"

text \<open>
  \<open>format(x, '[+][,].pf')\<close> of a float: \<open>showsign\<close> is the sign option \<open>+\<close>, \<open>comma\<close> the
  grouping option.
\<close>

definition fmt_float :: "bool \<Rightarrow> bool \<Rightarrow> nat \<Rightarrow> pyfloat \<Rightarrow> pystr" where
  "fmt_float showsign comma p x =
     (case x of
        Finite q \<Rightarrow>
          (if q < 0 then [45] else if showsign then [43] else []) @ fixed_digits comma p \<bar>q\<bar>
      | NegZero \<Rightarrow> [45] @ fixed_digits comma p 0
      | PosInf \<Rightarrow> (if showsign then [43] else []) @ asc ''inf''
      | NegInf \<Rightarrow> asc ''-inf''
      | NaN \<Rightarrow> (if showsign then [43] else []) @ asc ''nan'')"

text \<open>\<open>format(n, ',')\<close> of an \<open>int\<close>.\<close>

definition fmt_int_comma :: "int \<Rightarrow> pystr" where
  "fmt_int_comma n = (if n < 0 then [45] else []) @ group3 (digits (nat \<bar>n\<bar>))"

text \<open>
  \<open>float(n)\<close>, which the \<open>f\<close> format applies to an \<open>int\<close> first; it raises
  \<open>OverflowError\<close> beyond the range of binary64.
\<close>

definition float_of_int :: "int \<Rightarrow> pyexn + pyfloat" where
  "float_of_int n =
     (case round_double (of_int n) of
        PosInf \<Rightarrow> Inl (Exn OtherException (asc ''int too large to convert to float''))
      | NegInf \<Rightarrow> Inl (Exn OtherException (asc ''int too large to convert to float''))
      | x \<Rightarrow> Inr x)"

text \<open>
  \<open>format(v, '[+][,].pf')\<close> of a number. On another object it answers the exception
  that ends the formatting of the result (see \<open>PyOther\<close>).
\<close>

definition fmt_value :: "bool \<Rightarrow> bool \<Rightarrow> nat \<Rightarrow> pyval \<Rightarrow> pyexn + pystr" where
  "fmt_value showsign comma p v =
     (case v of
        PyInt n \<Rightarrow>
          (case float_of_int n of Inl e \<Rightarrow> Inl e | Inr x \<Rightarrow> Inr (fmt_float showsign comma p x))
      | PyFloat x \<Rightarrow> Inr (fmt_float showsign comma p x)
      | PyOther e \<Rightarrow> Inl e)"

text \<open>
  \<open>round(v)\<close> with one argument: an \<open>int\<close>, ties to even. On another object it raises
  (see \<open>PyOther\<close>).
\<close>

definition py_round :: "pyval \<Rightarrow> pyexn + int" where
  "py_round v =
     (case v of
        PyInt n \<Rightarrow> Inr n
      | PyFloat (Finite q) \<Rightarrow> (case quotient_of q of (n, d) \<Rightarrow> Inr (round_half_even n d))
      | PyFloat NegZero \<Rightarrow> Inr 0
      | PyFloat PosInf \<Rightarrow> Inl (Exn OtherException (asc ''cannot convert float infinity to integer''))
      | PyFloat NegInf \<Rightarrow> Inl (Exn OtherException (asc ''cannot convert float infinity to integer''))
      | PyFloat NaN \<Rightarrow> Inl (Exn OtherException (asc ''cannot convert float NaN to integer''))
      | PyOther e \<Rightarrow> Inl e)"

text \<open>The comparisons \<open>lo < v\<close> and \<open>v < hi\<close> of a number with an \<open>int\<close>; they are exact.\<close>

definition float_gt :: "pyfloat \<Rightarrow> rat \<Rightarrow> bool" where
  "float_gt x k =
     (case x of Finite q \<Rightarrow> k < q | NegZero \<Rightarrow> k < 0 | PosInf \<Rightarrow> True | NegInf \<Rightarrow> False
      | NaN \<Rightarrow> False)"

definition float_lt :: "pyfloat \<Rightarrow> rat \<Rightarrow> bool" where
  "float_lt x k =
     (case x of Finite q \<Rightarrow> q < k | NegZero \<Rightarrow> 0 < k | PosInf \<Rightarrow> False | NegInf \<Rightarrow> True
      | NaN \<Rightarrow> False)"

definition num_gt :: "pyval \<Rightarrow> int \<Rightarrow> bool" where
  "num_gt v k =
     (case v of PyInt n \<Rightarrow> k < n | PyFloat x \<Rightarrow> float_gt x (of_int k) | PyOther e \<Rightarrow> False)"

definition num_lt :: "pyval \<Rightarrow> int \<Rightarrow> bool" where
  "num_lt v k =
     (case v of PyInt n \<Rightarrow> n < k | PyFloat x \<Rightarrow> float_lt x (of_int k) | PyOther e \<Rightarrow> False)"

section \<open>The calculator tool\<close>

text \<open>
  \<open>eval\<close> is Python's own; the tool hands it the rewritten expression and the two
  namespaces, and it answers a value or raises. It is a parameter of the model, of
  this type. A namespace is a dictionary, here the list of its items.
\<close>

datatype pyobj = Dict "(pystr \<times> pyobj) list"

type_synonym evaluator = "pystr \<Rightarrow> pyobj \<Rightarrow> pyobj \<Rightarrow> pyexn + pyval"

text \<open>The failure marker, U+274C, with which every error string starts.\<close>

definition cross_mark :: pystr where
  "cross_mark = [10060]"

text \<open>\<open>p in s\<close> for strings.\<close>

fun contains :: "pystr \<Rightarrow> pystr \<Rightarrow> bool" where
  "contains p [] = (p = [])"
| "contains p (c # cs) = (prefix p (c # cs) \<or> contains p cs)"

text \<open>
  \<open>str.lower()\<close>: on an ASCII string it maps \<open>A\<close>..\<open>Z\<close> to \<open>a\<close>..\<open>z\<close>; on any other string
  it follows the Unicode case tables, the parameter \<open>ul\<close>.
\<close>

definition lower :: "(pystr \<Rightarrow> pystr) \<Rightarrow> pystr \<Rightarrow> pystr" where
  "lower ul s =
     (if list_all (\<lambda>c. c < 128) s then map (\<lambda>c. if 65 \<le> c \<and> c \<le> 90 then c + 32 else c) s
      else ul s)"

text \<open>
  Lines 27 to 53 of \<open>safe_calculate\<close>, up to the call of \<open>eval\<close>: either the tool returns
  an error string without evaluating anything, or it calls
  \<open>eval(expression, {"__builtins__": {}}, {})\<close>.
\<close>

datatype prepared = Rejected pystr | Evaluate pystr pyobj pyobj

definition err_no_expression :: pystr where
  "err_no_expression =
     cross_mark @ asc '' Error: Please provide a mathematical expression to calculate.''"

definition err_invalid_characters :: pystr where
  "err_invalid_characters =
     cross_mark @ asc '' Error: Invalid characters in expression. Only numbers and operators (+, -, *, /, %, parentheses) are allowed.''"

definition prepare_expression :: "(nat \<Rightarrow> bool) \<Rightarrow> pystr \<Rightarrow> prepared" where
  "prepare_expression nd expression =
     (if blank expression then Rejected err_no_expression
      else
        let e = percent_rewrite nd (strip expression) in
        if \<not> valid_expression nd e then Rejected err_invalid_characters
        else Evaluate (bare_percent nd e) (Dict [(asc ''__builtins__'', Dict [])]) (Dict []))"

text \<open>The three \<open>except\<close> clauses, in their order.\<close>

definition calc_error :: "pystr \<Rightarrow> pyexn \<Rightarrow> pystr" where
  "calc_error original_expression e =
     (case e of
        Exn ZeroDivisionError m \<Rightarrow> cross_mark @ asc '' Error: Division by zero is not allowed.''
      | Exn SyntaxError m \<Rightarrow>
          cross_mark @ asc '' Error: Invalid mathematical syntax in '' @ [39] @
          original_expression @ [39] @ asc ''. Please check your expression.''
      | Exn OtherException m \<Rightarrow>
          cross_mark @ asc '' Error calculating '' @ [39] @ original_expression @ [39] @
          asc '': '' @ m)"

text \<open>The sections of the success block (lines 56 to 79).\<close>

definition calc_header :: "pystr \<Rightarrow> pystr \<Rightarrow> pystr" where
  "calc_header original_expression grouped =
     [10, 129518] @ asc '' **Calculator Result**'' @ [10, 10] @
     asc ''**Expression**: '' @ original_expression @ [10] @
     asc ''**Result**: '' @ grouped @ [10, 10] @
     asc ''**Formatted Results**:'' @ [10]"

definition currency_line :: "pystr \<Rightarrow> pystr" where
  "currency_line grouped = asc ''- Currency: $'' @ grouped @ [10]"

definition percentage_line :: "pystr \<Rightarrow> pystr" where
  "percentage_line decimal = asc ''- As Percentage: '' @ decimal @ asc ''%'' @ [10]"

definition context_line :: pystr where
  "context_line =
     [10, 128161] @ asc '' **Financial Context**: This could represent a portion of a budget, investment, or savings.''"

text \<open>
  Formatting the result. Each format and \<open>round\<close> may raise, in the order in which the
  source evaluates them.
\<close>

definition render_result :: "(pystr \<Rightarrow> pystr) \<Rightarrow> pystr \<Rightarrow> pyval \<Rightarrow> pyexn + pystr" where
  "render_result ul original_expression result =
     (case fmt_value False True 2 result of
        Inl e \<Rightarrow> Inl e
      | Inr grouped \<Rightarrow>
          (case fmt_value False False 2 result of
             Inl e \<Rightarrow> Inl e
           | Inr decimal \<Rightarrow>
               (case py_round result of
                  Inl e \<Rightarrow> Inl e
                | Inr r \<Rightarrow>
                    Inr (calc_header original_expression grouped @
                         asc ''- Decimal: '' @ decimal @ [10] @
                         asc ''- Rounded: '' @ fmt_int_comma r @ [10] @
                         (if num_gt result 0 \<and> num_lt result 1000000000
                          then currency_line grouped else []) @
                         (if num_gt result 0 \<and> num_lt result 100
                          then percentage_line decimal else []) @
                         (if contains (asc ''of'') (lower ul original_expression) \<or>
                             contains (asc ''%'') original_expression
                          then context_line else [])))))"

definition safe_calculate ::
  "(nat \<Rightarrow> bool) \<Rightarrow> (pystr \<Rightarrow> pystr) \<Rightarrow> evaluator \<Rightarrow> pystr \<Rightarrow> pystr" where
  "safe_calculate nd ul ev expression =
     (case prepare_expression nd expression of
        Rejected msg \<Rightarrow> msg
      | Evaluate e globals locals \<Rightarrow>
          (case ev e globals locals of
             Inl x \<Rightarrow> calc_error (strip expression) x
           | Inr result \<Rightarrow>
               (case render_result ul (strip expression) result of
                  Inl x \<Rightarrow> calc_error (strip expression) x
                | Inr response \<Rightarrow> response)))"

section \<open>Python's arithmetic, for the concrete inputs\<close>

text \<open>
  The theorems about all inputs hold for every \<open>evaluator\<close>. The examples of the
  specification need the value Python computes, so \<open>py_eval\<close> writes out what \<open>eval\<close>
  does on the arithmetic fragment: decimal literals, parentheses, unary \<open>+ -\<close> and the
  binary \<open>+ - * / // % **\<close>, on \<open>int\<close> (exact) and on finite binary64 values (each
  operation correctly rounded). Whatever is outside this fragment (other syntax, a
  syntax error, a negative zero, an overflow or underflow, \<open>// % **\<close> on floats, a text
  of more than 32 characters, a power with a large base or exponent) is left to the
  parameter \<open>rest\<close>, and no theorem is stated there. The two bounds keep the fragment
  away from the limits of the interpreter (the depth of nesting, the size of an \<open>int\<close>).
\<close>

datatype binop = Add | Sub | Mul | Div | FloorDiv | Mod | Pow

datatype token = TNum pyval | TBin binop | TLPar | TRPar

definition ascii_digit :: "nat \<Rightarrow> bool" where
  "ascii_digit c \<longleftrightarrow> 48 \<le> c \<and> c \<le> 57"

definition decimal_value :: "pystr \<Rightarrow> int" where
  "decimal_value ds = foldl (\<lambda>a d. 10 * a + (int d - 48)) 0 ds"

text \<open>
  A number literal: \<open>digits\<close>, \<open>digits.digits\<close>, \<open>digits.\<close> or \<open>.digits\<close>. An \<open>int\<close>
  literal with a leading zero is a syntax error unless it is all zeros.
\<close>

definition number_token :: "pystr \<Rightarrow> token option" where
  "number_token w =
     (let ip = takeWhile ascii_digit w; r = dropWhile ascii_digit w in
      case r of
        [] \<Rightarrow>
          if ip \<noteq> [] \<and> (length ip = 1 \<or> hd ip \<noteq> 48 \<or> list_all (\<lambda>c. c = 48) ip)
          then Some (TNum (PyInt (decimal_value ip))) else None
      | c # fp \<Rightarrow>
          if c = 46 \<and> list_all ascii_digit fp \<and> (ip \<noteq> [] \<or> fp \<noteq> [])
          then Some (TNum (PyFloat (round_double
                  (of_int (decimal_value (ip @ fp)) / of_int (10 ^ length fp)))))
          else None)"

definition flush :: "pystr \<Rightarrow> token list option" where
  "flush w = (if w = [] then Some [] else map_option (\<lambda>t. [t]) (number_token w))"

definition emit :: "pystr \<Rightarrow> token \<Rightarrow> token list option \<Rightarrow> token list option" where
  "emit w t rest =
     (case flush w of
        None \<Rightarrow> None
      | Some a \<Rightarrow> (case rest of None \<Rightarrow> None | Some b \<Rightarrow> Some (a @ t # b)))"

text \<open>The tokenizer; \<open>w\<close> holds the characters of the number being read.\<close>

fun lex :: "pystr \<Rightarrow> pystr \<Rightarrow> token list option" where
  "lex w [] = flush w"
| "lex w (c # cs) =
     (if ascii_digit c \<or> c = 46 then lex (w @ [c]) cs
      else if c = 32 \<or> c = 9 \<or> c = 12 then
        (case flush w of
           None \<Rightarrow> None
         | Some a \<Rightarrow> (case lex [] cs of None \<Rightarrow> None | Some b \<Rightarrow> Some (a @ b)))
      else if c = 43 then emit w (TBin Add) (lex [] cs)
      else if c = 45 then emit w (TBin Sub) (lex [] cs)
      else if c = 37 then emit w (TBin Mod) (lex [] cs)
      else if c = 40 then emit w TLPar (lex [] cs)
      else if c = 41 then emit w TRPar (lex [] cs)
      else if c = 42 then
        (case cs of
           [] \<Rightarrow> emit w (TBin Mul) (Some [])
         | d # ds \<Rightarrow>
             if d = 42 then emit w (TBin Pow) (lex [] ds) else emit w (TBin Mul) (lex [] cs))
      else if c = 47 then
        (case cs of
           [] \<Rightarrow> emit w (TBin Div) (Some [])
         | d # ds \<Rightarrow>
             if d = 47 then emit w (TBin FloorDiv) (lex [] ds)
             else emit w (TBin Div) (lex [] cs))
      else None)"

datatype expr = Lit pyval | Neg expr | Pos expr | Bin binop expr expr

text \<open>
  Python's grammar of arithmetic expressions, by recursive descent:
  \<^verbatim>\<open>arith: term (('+'|'-') term)*\<close>,
  \<^verbatim>\<open>term: factor (('*'|'/'|'//'|'%') factor)*\<close>,
  \<^verbatim>\<open>factor: ('+'|'-') factor | atom ['**' factor]\<close>,
  \<^verbatim>\<open>atom: NUMBER | '(' arith ')'\<close>.
  A \<open>goal\<close> names the nonterminal being parsed (\<open>ArithRest\<close> and \<open>TermRest\<close> are the
  two repetitions, holding the operand read so far). The first argument bounds the
  depth of the recursion; running out of it answers \<open>None\<close>, as for input outside
  the fragment.
\<close>

datatype goal = Arith | ArithRest expr | Term | TermRest expr | Factor | Atom

primrec parse :: "nat \<Rightarrow> goal \<Rightarrow> token list \<Rightarrow> (expr \<times> token list) option" where
  "parse 0 g ts = None"
| "parse (Suc n) g ts =
     (case g of
        Arith \<Rightarrow>
          (case parse n Term ts of None \<Rightarrow> None | Some (l, r) \<Rightarrow> parse n (ArithRest l) r)
      | ArithRest l \<Rightarrow>
          (case ts of
             TBin b # ts' \<Rightarrow>
               if b = Add \<or> b = Sub
               then (case parse n Term ts' of
                       None \<Rightarrow> None
                     | Some (r, ts'') \<Rightarrow> parse n (ArithRest (Bin b l r)) ts'')
               else Some (l, ts)
           | _ \<Rightarrow> Some (l, ts))
      | Term \<Rightarrow>
          (case parse n Factor ts of None \<Rightarrow> None | Some (l, r) \<Rightarrow> parse n (TermRest l) r)
      | TermRest l \<Rightarrow>
          (case ts of
             TBin b # ts' \<Rightarrow>
               if b = Mul \<or> b = Div \<or> b = FloorDiv \<or> b = Mod
               then (case parse n Factor ts' of
                       None \<Rightarrow> None
                     | Some (r, ts'') \<Rightarrow> parse n (TermRest (Bin b l r)) ts'')
               else Some (l, ts)
           | _ \<Rightarrow> Some (l, ts))
      | Factor \<Rightarrow>
          (case ts of
             TBin b # ts' \<Rightarrow>
               if b = Add then map_option (\<lambda>(e, r). (Pos e, r)) (parse n Factor ts')
               else if b = Sub then map_option (\<lambda>(e, r). (Neg e, r)) (parse n Factor ts')
               else None
           | _ \<Rightarrow>
               (case parse n Atom ts of
                  None \<Rightarrow> None
                | Some (a, r) \<Rightarrow>
                    (case r of
                       TBin b # r' \<Rightarrow>
                         if b = Pow
                         then map_option (\<lambda>(e, r''). (Bin Pow a e, r'')) (parse n Factor r')
                         else Some (a, r)
                     | _ \<Rightarrow> Some (a, r))))
      | Atom \<Rightarrow>
          (case ts of
             TNum v # r \<Rightarrow> Some (Lit v, r)
           | TLPar # r \<Rightarrow>
               (case parse n Arith r of
                  Some (e, TRPar # r') \<Rightarrow> Some (e, r')
                | _ \<Rightarrow> None)
           | _ \<Rightarrow> None))"

text \<open>
  The value of an operation: \<open>None\<close> outside the fragment, an exception or a value
  inside. A float result is kept only when it is finite and not a negative zero.
\<close>

definition finite_result :: "pyfloat \<Rightarrow> (pyexn + pyval) option" where
  "finite_result x = (case x of Finite q \<Rightarrow> Some (Inr (PyFloat (Finite q))) | _ \<Rightarrow> None)"

definition nonzero_result :: "pyfloat \<Rightarrow> (pyexn + pyval) option" where
  "nonzero_result x =
     (case x of
        Finite q \<Rightarrow> if q = 0 then None else Some (Inr (PyFloat (Finite q)))
      | _ \<Rightarrow> None)"

definition zero_division :: "string \<Rightarrow> (pyexn + pyval) option" where
  "zero_division m = Some (Inl (Exn ZeroDivisionError (asc m)))"

definition int_op :: "binop \<Rightarrow> int \<Rightarrow> int \<Rightarrow> (pyexn + pyval) option" where
  "int_op b x y =
     (case b of
        Add \<Rightarrow> Some (Inr (PyInt (x + y)))
      | Sub \<Rightarrow> Some (Inr (PyInt (x - y)))
      | Mul \<Rightarrow> Some (Inr (PyInt (x * y)))
      | Div \<Rightarrow>
          if y = 0 then zero_division ''division by zero''
          else if x = 0 then (if y < 0 then None else Some (Inr (PyFloat (Finite 0))))
          else nonzero_result (round_double (of_int x / of_int y))
      | FloorDiv \<Rightarrow>
          if y = 0 then zero_division ''integer division or modulo by zero''
          else Some (Inr (PyInt (x div y)))
      | Mod \<Rightarrow>
          if y = 0 then zero_division ''integer modulo by zero''
          else Some (Inr (PyInt (x mod y)))
      | Pow \<Rightarrow>
          if 0 \<le> y \<and> y \<le> 64 \<and> \<bar>x\<bar> \<le> 2 ^ 64 then Some (Inr (PyInt (x ^ nat y))) else None)"

definition float_op :: "binop \<Rightarrow> rat \<Rightarrow> rat \<Rightarrow> (pyexn + pyval) option" where
  "float_op b x y =
     (case b of
        Add \<Rightarrow> if x + y = 0 then Some (Inr (PyFloat (Finite 0)))
               else finite_result (round_double (x + y))
      | Sub \<Rightarrow> if x - y = 0 then Some (Inr (PyFloat (Finite 0)))
               else finite_result (round_double (x - y))
      | Mul \<Rightarrow>
          if x = 0 \<or> y = 0
          then (if x < 0 \<or> y < 0 then None else Some (Inr (PyFloat (Finite 0))))
          else nonzero_result (round_double (x * y))
      | Div \<Rightarrow>
          if y = 0 then zero_division ''float division by zero''
          else if x = 0 then (if y < 0 then None else Some (Inr (PyFloat (Finite 0))))
          else nonzero_result (round_double (x / y))
      | _ \<Rightarrow> None)"

text \<open>An operand of a float operation: an \<open>int\<close> is converted first.\<close>

definition as_float :: "pyval \<Rightarrow> rat option" where
  "as_float v =
     (case v of
        PyInt n \<Rightarrow> (case round_double (of_int n) of Finite q \<Rightarrow> Some q | _ \<Rightarrow> None)
      | PyFloat (Finite q) \<Rightarrow> Some q
      | _ \<Rightarrow> None)"

definition bin_op :: "binop \<Rightarrow> pyval \<Rightarrow> pyval \<Rightarrow> (pyexn + pyval) option" where
  "bin_op b v w =
     (case (v, w) of
        (PyInt x, PyInt y) \<Rightarrow> int_op b x y
      | _ \<Rightarrow>
          (case (as_float v, as_float w) of
             (Some x, Some y) \<Rightarrow> float_op b x y
           | _ \<Rightarrow> None))"

definition neg_op :: "pyval \<Rightarrow> (pyexn + pyval) option" where
  "neg_op v =
     (case v of
        PyInt n \<Rightarrow> Some (Inr (PyInt (- n)))
      | PyFloat (Finite q) \<Rightarrow> if q = 0 then None else Some (Inr (PyFloat (Finite (- q))))
      | _ \<Rightarrow> None)"

definition pos_op :: "pyval \<Rightarrow> (pyexn + pyval) option" where
  "pos_op v =
     (case v of
        PyInt n \<Rightarrow> Some (Inr v)
      | PyFloat (Finite q) \<Rightarrow> Some (Inr v)
      | _ \<Rightarrow> None)"

text \<open>Evaluation, the left operand first; an exception ends it.\<close>

fun eval_expr :: "expr \<Rightarrow> (pyexn + pyval) option" where
  "eval_expr (Lit v) = (case v of PyFloat (Finite q) \<Rightarrow> Some (Inr v) | PyInt n \<Rightarrow> Some (Inr v)
                         | _ \<Rightarrow> None)"
| "eval_expr (Neg e) =
     (case eval_expr e of None \<Rightarrow> None | Some (Inl x) \<Rightarrow> Some (Inl x) | Some (Inr v) \<Rightarrow> neg_op v)"
| "eval_expr (Pos e) =
     (case eval_expr e of None \<Rightarrow> None | Some (Inl x) \<Rightarrow> Some (Inl x) | Some (Inr v) \<Rightarrow> pos_op v)"
| "eval_expr (Bin b l r) =
     (case eval_expr l of
        None \<Rightarrow> None
      | Some (Inl x) \<Rightarrow> Some (Inl x)
      | Some (Inr v) \<Rightarrow>
          (case eval_expr r of
             None \<Rightarrow> None
           | Some (Inl x) \<Rightarrow> Some (Inl x)
           | Some (Inr w) \<Rightarrow> bin_op b v w))"

definition arith_eval :: "pystr \<Rightarrow> (pyexn + pyval) option" where
  "arith_eval s =
     (if 32 < length s then None
      else
        case lex [] s of
          None \<Rightarrow> None
        | Some ts \<Rightarrow>
            (case parse (4 * length ts + 4) Arith ts of
               Some (e, []) \<Rightarrow> eval_expr e
             | _ \<Rightarrow> None))"

definition py_eval :: "evaluator \<Rightarrow> evaluator" where
  "py_eval rest s globals locals =
     (case arith_eval s of Some r \<Rightarrow> r | None \<Rightarrow> rest s globals locals)"

section \<open>Float comparisons and literals\<close>

text \<open>
  The order of binary64 values: a NaN compares false with everything, the two zeros
  are equal. \<open>float_key\<close> places a value that is not a NaN on the extended line.
\<close>

definition float_key :: "pyfloat \<Rightarrow> (int \<times> rat) option" where
  "float_key x =
     (case x of
        Finite q \<Rightarrow> Some (0, q) | NegZero \<Rightarrow> Some (0, 0) | PosInf \<Rightarrow> Some (1, 0)
      | NegInf \<Rightarrow> Some (- 1, 0) | NaN \<Rightarrow> None)"

definition float_le :: "pyfloat \<Rightarrow> pyfloat \<Rightarrow> bool" where
  "float_le x y =
     (case (float_key x, float_key y) of
        (Some (a, p), Some (b, q)) \<Rightarrow> a < b \<or> (a = b \<and> p \<le> q)
      | _ \<Rightarrow> False)"





section \<open>The sentiment tool\<close>


datatype label = Positive | Negative | Neutral










section \<open>The Wikipedia tool\<close>

text \<open>
  The page object is \<open>wikipediaapi\<close>'s; each of its attributes is fetched when it is
  read and may raise. \<open>page_categories\<close> is the list of the keys of \<open>page.categories\<close>.
\<close>

record wiki_page =
  page_exists :: "pyexn + bool"
  page_summary :: "pyexn + pystr"
  page_title :: "pyexn + pystr"
  page_fullurl :: "pyexn + pystr"
  page_categories :: "pyexn + pystr list"

text \<open>\<open>sep.join(xs)\<close>\<close>

fun join :: "pystr \<Rightarrow> pystr list \<Rightarrow> pystr" where
  "join sep [] = []"
| "join sep [x] = x"
| "join sep (x # y # ys) = x @ sep @ join sep (y # ys)"

definition shorten :: "pystr \<Rightarrow> pystr" where
  "shorten summary = (if 800 < length summary then take 800 summary @ asc ''...'' else summary)"

definition categories_text :: "pystr list \<Rightarrow> pystr" where
  "categories_text cats = (if cats \<noteq> [] then join (asc '', '') (take 5 cats) else asc ''N/A'')"

definition wiki_response :: "pystr \<Rightarrow> pystr \<Rightarrow> pystr \<Rightarrow> pystr list \<Rightarrow> pystr" where
  "wiki_response title summary url cats =
     [10, 128218] @ asc '' **Wikipedia Summary: '' @ title @ asc ''**'' @ [10, 10] @
     shorten summary @ [10, 10, 128279] @
     asc '' **Source**: '' @ url @ [10, 10, 128161] @
     asc '' **Categories**: '' @ categories_text cats @ [10]"

definition wiki_error :: "pystr \<Rightarrow> pyexn \<Rightarrow> pystr" where
  "wiki_error query e =
     (case e of
        Exn c m \<Rightarrow>
          cross_mark @ asc '' Error searching Wikipedia for '' @ [39] @ query @ [39] @
          asc '': '' @ m)"

definition wiki_not_found :: "pystr \<Rightarrow> pystr" where
  "wiki_not_found query =
     cross_mark @ asc '' No Wikipedia page found for '' @ [39] @ query @ [39] @
     asc ''. Please try a different search term or check the spelling.''"

definition search_wikipedia :: "(pystr \<Rightarrow> pyexn + wiki_page) \<Rightarrow> pystr \<Rightarrow> pystr" where
  "search_wikipedia wiki query =
     (if blank query then cross_mark @ asc '' Error: Please provide a search query.''
      else
        let q = strip query in
        case wiki q of
          Inl e \<Rightarrow> wiki_error q e
        | Inr page \<Rightarrow>
            (case page_exists page of
               Inl e \<Rightarrow> wiki_error q e
             | Inr ex \<Rightarrow>
                 if \<not> ex then wiki_not_found q
                 else (case page_summary page of
                         Inl e \<Rightarrow> wiki_error q e
                       | Inr summary \<Rightarrow>
                           (case page_title page of
                              Inl e \<Rightarrow> wiki_error q e
                            | Inr title \<Rightarrow>
                                (case page_fullurl page of
                                   Inl e \<Rightarrow> wiki_error q e
                                 | Inr url \<Rightarrow>
                                     (case page_categories page of
                                        Inl e \<Rightarrow> wiki_error q e
                                      | Inr cats \<Rightarrow>
                                          wiki_response title summary url cats))))))"

section \<open>The stock tool\<close>

text \<open>
  A row of the price history: the date of the index, already formatted
  (\<open>strftime('%Y-%m-%d')\<close>), the three prices (numpy \<open>float64\<close>) and the volume.
\<close>

record row =
  r_date :: pystr
  r_close :: pyfloat
  r_high :: pyfloat
  r_low :: pyfloat
  r_volume :: int

text \<open>A value of the \<open>info\<close> dictionary, and the dictionary as the list of its items.\<close>

datatype jval = JStr pystr | JNum pyval | JNone

type_synonym info = "(pystr \<times> jval) list"

text \<open>
  What the tool takes from outside the repository: \<open>yfinance\<close> (\<open>yf_info\<close> is
  \<open>yf.Ticker(t).info\<close>, \<open>yf_history\<close> the seven-day \<open>history\<close> call, the clock included)
  and the runtime: \<open>str.upper\<close> beyond ASCII, the arithmetic of \<open>float64\<close>, and \<open>str\<close>
  of a number.
\<close>

record market =
  yf_info :: "pystr \<Rightarrow> pyexn + info"
  yf_history :: "pystr \<Rightarrow> pyexn + row list"

record runtime =
  upper_u :: "pystr \<Rightarrow> pystr"
  fsub :: "pyfloat \<Rightarrow> pyfloat \<Rightarrow> pyfloat"
  fdiv :: "pyfloat \<Rightarrow> pyfloat \<Rightarrow> pyfloat"
  fmul :: "pyfloat \<Rightarrow> pyfloat \<Rightarrow> pyfloat"
  num_str :: "pyval \<Rightarrow> pystr"

text \<open>
  An instance of the \<open>float64\<close> operations, for the concrete inputs: the operation of
  Python's floats where it answers a finite value (numpy agrees there), and a NaN for
  every other outcome.
\<close>

definition float_arith :: "binop \<Rightarrow> pyfloat \<Rightarrow> pyfloat \<Rightarrow> pyfloat" where
  "float_arith b x y =
     (case bin_op b (PyFloat x) (PyFloat y) of Some (Inr (PyFloat z)) \<Rightarrow> z | _ \<Rightarrow> NaN)"

definition upper :: "(pystr \<Rightarrow> pystr) \<Rightarrow> pystr \<Rightarrow> pystr" where
  "upper uu s =
     (if list_all (\<lambda>c. c < 128) s then map (\<lambda>c. if 97 \<le> c \<and> c \<le> 122 then c - 32 else c) s
      else uu s)"

text \<open>\<open>Series.max()\<close> and \<open>Series.min()\<close> of pandas skip the NaNs; with none left they are NaN.\<close>

definition float_max :: "pyfloat \<Rightarrow> pyfloat \<Rightarrow> pyfloat" where
  "float_max x y = (if float_le x y then y else x)"

definition float_min :: "pyfloat \<Rightarrow> pyfloat \<Rightarrow> pyfloat" where
  "float_min x y = (if float_le x y then x else y)"

definition series_max :: "pyfloat list \<Rightarrow> pyfloat" where
  "series_max xs =
     (case filter (\<lambda>x. x \<noteq> NaN) xs of [] \<Rightarrow> NaN | y # ys \<Rightarrow> foldl float_max y ys)"

definition series_min :: "pyfloat list \<Rightarrow> pyfloat" where
  "series_min xs =
     (case filter (\<lambda>x. x \<noteq> NaN) xs of [] \<Rightarrow> NaN | y # ys \<Rightarrow> foldl float_min y ys)"

text \<open>The figures computed from a history that is not empty (lines 45 to 58).\<close>

record quote =
  current_price :: pyfloat
  price_change :: pyval
  price_change_pct :: pyval
  current_volume :: int
  high_7d :: pyfloat
  low_7d :: pyfloat

definition compute_quote :: "runtime \<Rightarrow> row list \<Rightarrow> quote" where
  "compute_quote rt hist =
     (let cur = r_close (last hist);
          chg = (if 1 < length hist then PyFloat (fsub rt cur (r_close (hd hist))) else PyInt 0);
          pct = (if 1 < length hist
                 then PyFloat (fmul rt (fdiv rt (fsub rt cur (r_close (hd hist)))
                                          (r_close (hd hist))) (Finite 100))
                 else PyInt 0)
      in \<lparr>current_price = cur, price_change = chg, price_change_pct = pct,
          current_volume = r_volume (last hist),
          high_7d = series_max (map r_high hist), low_7d = series_min (map r_low hist)\<rparr>)"

definition is_crypto :: "pystr \<Rightarrow> bool" where
  "is_crypto ticker \<longleftrightarrow>
     contains (asc ''-USD'') ticker \<or> ticker \<in> set [asc ''BTC'', asc ''ETH'', asc ''DOGE'']"

definition jstr :: "runtime \<Rightarrow> jval \<Rightarrow> pystr" where
  "jstr rt v = (case v of JStr s \<Rightarrow> s | JNum n \<Rightarrow> num_str rt n | JNone \<Rightarrow> asc ''None'')"

definition truthy :: "jval \<Rightarrow> bool" where
  "truthy v =
     (case v of
        JStr s \<Rightarrow> s \<noteq> []
      | JNum (PyInt n) \<Rightarrow> n \<noteq> 0
      | JNum (PyFloat x) \<Rightarrow> x \<noteq> Finite 0 \<and> x \<noteq> NegZero
      | JNum (PyOther e) \<Rightarrow> True
      | JNone \<Rightarrow> False)"

text \<open>\<open>info.get('longName', info.get('shortName', ticker))\<close>\<close>

definition company_name :: "runtime \<Rightarrow> info \<Rightarrow> pystr \<Rightarrow> pystr" where
  "company_name rt info ticker =
     (case map_of info (asc ''longName'') of
        Some v \<Rightarrow> jstr rt v
      | None \<Rightarrow> (case map_of info (asc ''shortName'') of Some v \<Rightarrow> jstr rt v | None \<Rightarrow> ticker))"

definition recent_line :: "row \<Rightarrow> pystr" where
  "recent_line r =
     asc ''- '' @ r_date r @ asc '': $'' @ fmt_float False False 2 (r_close r) @ [10]"

definition trend :: "pyval \<Rightarrow> pystr" where
  "trend pct =
     (if num_gt pct 5 then [10, 128640] @ asc '' **Trend**: Strong upward momentum''
      else if num_gt pct 0 then [10, 128200] @ asc '' **Trend**: Positive movement''
      else if num_gt pct (- 5) then [10, 128201] @ asc '' **Trend**: Slight decline''
      else [10, 9888, 65039] @ asc '' **Trend**: Significant decline'')"

definition market_cap_line :: "info \<Rightarrow> pyexn + pystr" where
  "market_cap_line info =
     (case map_of info (asc ''marketCap'') of
        None \<Rightarrow> Inr []
      | Some v \<Rightarrow>
          if \<not> truthy v then Inr []
          else (case v of
                  JNum n \<Rightarrow>
                    (case fmt_value False True 0 n of
                       Inl e \<Rightarrow> Inl e
                     | Inr t \<Rightarrow> Inr ([10, 128176] @ asc '' **Market Cap**: $'' @ t))
                | _ \<Rightarrow>
                    Inl (Exn OtherException
                           (asc ''Unknown format code '' @ [39, 102, 39] @
                            asc '' for object of type '' @ [39, 115, 116, 114, 39]))))"

definition optional_line :: "runtime \<Rightarrow> info \<Rightarrow> string \<Rightarrow> pystr \<Rightarrow> pystr" where
  "optional_line rt info key label =
     (case map_of info (asc key) of
        None \<Rightarrow> []
      | Some v \<Rightarrow> if truthy v then [10] @ label @ jstr rt v else [])"

text \<open>The first f-string of the response; the formats of the change and the volume may raise.\<close>

definition stock_header ::
  "pystr \<Rightarrow> pystr \<Rightarrow> pystr \<Rightarrow> row list \<Rightarrow> quote \<Rightarrow> pyexn + pystr" where
  "stock_header asset_type name ticker hist q =
     (case fmt_value True False 2 (price_change q) of
        Inl e \<Rightarrow> Inl e
      | Inr chg \<Rightarrow>
          (case fmt_value True False 2 (price_change_pct q) of
             Inl e \<Rightarrow> Inl e
           | Inr pct \<Rightarrow>
               (case fmt_value False True 0 (PyInt (current_volume q)) of
                  Inl e \<Rightarrow> Inl e
                | Inr vol \<Rightarrow>
                    Inr ([10, 128202] @ asc '' **'' @ asset_type @ asc '' Information: '' @
                         name @ asc '' ('' @ ticker @ asc '')**'' @ [10, 10, 128181] @
                         asc '' **Current Price**: $'' @
                         fmt_float False False 2 (current_price q) @ [10, 128200] @
                         asc '' **7-Day Change**: $'' @ chg @ asc '' ('' @ pct @ asc ''%)'' @
                         [10, 128202] @ asc '' **Volume**: '' @ vol @ [10, 128197] @
                         asc '' **Last Updated**: '' @ r_date (last hist) @ [10, 10] @
                         asc ''**7-Day Price Range**:'' @ [10] @
                         asc ''- High: $'' @ fmt_float False False 2 (high_7d q) @ [10] @
                         asc ''- Low: $'' @ fmt_float False False 2 (low_7d q) @ [10, 10] @
                         asc ''**Recent Performance**:'' @ [10]))))"

definition stock_error :: "pystr \<Rightarrow> pyexn \<Rightarrow> pystr" where
  "stock_error ticker e =
     (case e of
        Exn c m \<Rightarrow>
          cross_mark @ asc '' Error fetching data for '' @ [39] @ ticker @ [39] @ asc '': '' @
          m @ asc ''. Please verify the ticker symbol is correct and try again.'')"

definition no_data_found :: "pystr \<Rightarrow> pystr" where
  "no_data_found ticker =
     cross_mark @ asc '' No data found for ticker '' @ [39] @ ticker @ [39] @
     asc ''. Please verify the ticker symbol is correct.''"

definition get_stock_data :: "runtime \<Rightarrow> market \<Rightarrow> pystr \<Rightarrow> pystr" where
  "get_stock_data rt mk ticker0 =
     (let ticker = upper (upper_u rt) (strip ticker0) in
      case yf_info mk ticker of
        Inl e \<Rightarrow> stock_error ticker e
      | Inr info \<Rightarrow>
          (case yf_history mk ticker of
             Inl e \<Rightarrow> stock_error ticker e
           | Inr hist \<Rightarrow>
               if hist = [] then no_data_found ticker
               else
                 let q = compute_quote rt hist;
                     crypto = is_crypto ticker;
                     asset_type = (if crypto then asc ''Cryptocurrency'' else asc ''Stock'');
                     name = company_name rt info ticker
                 in case stock_header asset_type name ticker hist q of
                      Inl e \<Rightarrow> stock_error ticker e
                    | Inr header \<Rightarrow>
                        (case market_cap_line info of
                           Inl e \<Rightarrow> stock_error ticker e
                         | Inr cap \<Rightarrow>
                             header @
                             concat (map recent_line (take 5 (rev hist))) @
                             trend (price_change_pct q) @ cap @
                             (if \<not> crypto
                              then optional_line rt info ''sector''
                                     ([127970] @ asc '' **Sector**: '') @
                                   optional_line rt info ''industry''
                                     ([128295] @ asc '' **Industry**: '')
                              else []))))"

text \<open>
  Sample data for the closed instances of the stock tool: a runtime whose upper case
  beyond ASCII is the identity and whose arithmetic is \<open>float_arith\<close>, and a market that
  knows the one ticker \<open>AAPL\<close>, with a given history.
\<close>

definition sample_runtime :: runtime where
  "sample_runtime =
     \<lparr>upper_u = (\<lambda>s. s), fsub = float_arith Sub, fdiv = float_arith Div,
      fmul = float_arith Mul, num_str = (\<lambda>v. [])\<rparr>"

definition sample_info :: info where
  "sample_info =
     [(asc ''longName'', JStr (asc ''Apple Inc.'')),
      (asc ''marketCap'', JNum (PyInt 3000000000000)),
      (asc ''sector'', JStr (asc ''Technology''))]"

definition sample_history :: "row list" where
  "sample_history =
     [\<lparr>r_date = asc ''2024-01-02'', r_close = Finite 100, r_high = Finite 101,
       r_low = Finite 99, r_volume = 1000\<rparr>,
      \<lparr>r_date = asc ''2024-01-03'', r_close = Finite 110, r_high = Finite 112,
       r_low = Finite 108, r_volume = 2000\<rparr>]"

definition sample_market :: "row list \<Rightarrow> market" where
  "sample_market hist =
     \<lparr>yf_info = (\<lambda>s. if s = asc ''AAPL'' then Inr sample_info
                     else Inl (Exn OtherException (asc ''unknown''))),
      yf_history = (\<lambda>s. if s = asc ''AAPL'' then Inr hist else Inr [])\<rparr>"

section \<open>Blank strings\<close>

lemma list_all_dropWhile: "list_all P (dropWhile P s) = list_all P s"
  by (induction s) auto

lemma strip_Nil_iff: "strip s = [] \<longleftrightarrow> list_all isspace s"
proof -
  have "strip s = [] \<longleftrightarrow> list_all isspace (dropWhile isspace s)"
    by (simp add: strip_def dropWhile_eq_Nil_conv list_all_iff)
  then show ?thesis by (simp add: list_all_dropWhile)
qed

lemma blank_iff: "blank s \<longleftrightarrow> list_all isspace s"
  unfolding blank_def strip_Nil_iff by (cases s) simp_all

section \<open>Formatting integral values\<close>

lemma round_half_even_one: "round_half_even n 1 = n"
  by (simp add: round_half_even_def Let_def)

lemma digits_zero: "digits 0 = [48]"
  by (simp add: digits.simps)

lemma zero_pad_zero: "0 < p \<Longrightarrow> zero_pad p [48] = replicate p 48"
  by (cases p) (simp_all add: zero_pad_def replicate_append_same)

text \<open>
  A magnitude that is a whole number prints as its digits, grouped on demand, followed
  by the point and \<open>p\<close> zeros.
\<close>

lemma fixed_digits_of_nat:
  "fixed_digits comma p (of_nat k) =
     (if comma then group3 (digits k) else digits k) @
     (if p = 0 then [] else 46 # replicate p 48)"
proof -
  have q: "quotient_of (of_nat k) = (int k, 1)"
    using quotient_of_int [of "int k"] by simp
  have r: "nat (round_half_even (int k * 10 ^ p) 1) = k * 10 ^ p"
    by (simp add: round_half_even_one nat_mult_distrib nat_power_eq)
  show ?thesis
    unfolding fixed_digits_def q prod.case Let_def r
    by (simp add: digits_zero zero_pad_zero)
qed

lemma fixed_digits_numeral:
  "fixed_digits comma p (numeral w) =
     (if comma then group3 (digits (numeral w)) else digits (numeral w)) @
     (if p = 0 then [] else 46 # replicate p 48)"
  "fixed_digits comma p 1 =
     (if comma then group3 (digits 1) else digits 1) @
     (if p = 0 then [] else 46 # replicate p 48)"
  "fixed_digits comma p 0 =
     (if comma then group3 (digits 0) else digits 0) @
     (if p = 0 then [] else 46 # replicate p 48)"
  using fixed_digits_of_nat [of comma p "numeral w"] fixed_digits_of_nat [of comma p 1]
    fixed_digits_of_nat [of comma p 0]
  by simp_all

lemma fmt_float_numeral:
  "fmt_float showsign comma p (Finite (numeral w)) =
     (if showsign then [43] else []) @ fixed_digits comma p (numeral w)"
  "fmt_float showsign comma p (Finite (- numeral w)) = [45] @ fixed_digits comma p (numeral w)"
  "fmt_float showsign comma p (Finite 1) = (if showsign then [43] else []) @ fixed_digits comma p 1"
  "fmt_float showsign comma p (Finite 0) = (if showsign then [43] else []) @ fixed_digits comma p 0"
  by (simp_all add: fmt_float_def)

lemma replicate_numeral: "replicate (numeral k) x = x # replicate (pred_numeral k) x"
  by (simp add: numeral_eq_Suc)

text \<open>The rules that evaluate the format of a whole number to its text.\<close>

lemmas fmt_eval = fmt_float_numeral fixed_digits_numeral digits.simps group3.simps
  replicate_numeral


section \<open>The stock response\<close>

lemma stock_error_prefix: "prefix cross_mark (stock_error tk e)"
  unfolding stock_error_def by (cases e) simp

lemma no_data_found_prefix: "prefix cross_mark (no_data_found tk)"
  unfolding no_data_found_def by simp

lemma fmt_int_zero: "fmt_value True False 2 (PyInt 0) = Inr (asc ''+0.00'')"
  by code_simp

lemma fmt_value_float: "fmt_value s c p (PyFloat x) = Inr (fmt_float s c p x)"
  by (simp add: fmt_value_def)

lemma quote_fields:
  "current_price (compute_quote rt hist) = r_close (last hist)"
  "current_volume (compute_quote rt hist) = r_volume (last hist)"
  "high_7d (compute_quote rt hist) = series_max (map r_high hist)"
  "low_7d (compute_quote rt hist) = series_min (map r_low hist)"
  by (simp_all add: compute_quote_def Let_def)

lemma quote_change:
  "price_change (compute_quote rt hist) =
     (if 1 < length hist then PyFloat (fsub rt (r_close (last hist)) (r_close (hd hist)))
      else PyInt 0)"
  "price_change_pct (compute_quote rt hist) =
     (if 1 < length hist
      then PyFloat (fmul rt (fdiv rt (fsub rt (r_close (last hist)) (r_close (hd hist)))
                               (r_close (hd hist))) (Finite 100))
      else PyInt 0)"
  by (simp_all add: compute_quote_def Let_def)

lemma quote_fmt:
  "fmt_value True False 2 (price_change (compute_quote rt hist)) =
     Inr (if 1 < length hist
          then fmt_float True False 2 (fsub rt (r_close (last hist)) (r_close (hd hist)))
          else asc ''+0.00'')"
  "fmt_value True False 2 (price_change_pct (compute_quote rt hist)) =
     Inr (if 1 < length hist
          then fmt_float True False 2
                 (fmul rt (fdiv rt (fsub rt (r_close (last hist)) (r_close (hd hist)))
                             (r_close (hd hist))) (Finite 100))
          else asc ''+0.00'')"
  by (simp_all add: quote_change fmt_int_zero fmt_value_float)

text \<open>A response that does not begin with the failure marker is the success block.\<close>

lemma stock_success:
  assumes ok: "\<not> prefix cross_mark (get_stock_data rt mk t)"
    and h: "yf_history mk (upper (upper_u rt) (strip t)) = Inr hist"
  shows "hist \<noteq> [] \<and>
    (\<exists>info vol cap.
       yf_info mk (upper (upper_u rt) (strip t)) = Inr info \<and>
       fmt_value False True 0 (PyInt (r_volume (last hist))) = Inr vol \<and>
       market_cap_line info = Inr cap \<and>
       get_stock_data rt mk t =
         [10, 128202] @ asc '' **'' @
         (if is_crypto (upper (upper_u rt) (strip t)) then asc ''Cryptocurrency'' else asc ''Stock'') @
         asc '' Information: '' @
         company_name rt info (upper (upper_u rt) (strip t)) @
         asc '' ('' @ upper (upper_u rt) (strip t) @ asc '')**'' @ [10, 10, 128181] @
         asc '' **Current Price**: $'' @
         fmt_float False False 2 (r_close (last hist)) @ [10, 128200] @
         asc '' **7-Day Change**: $'' @
         (if 1 < length hist
          then fmt_float True False 2 (fsub rt (r_close (last hist)) (r_close (hd hist)))
          else asc ''+0.00'') @
         asc '' ('' @
         (if 1 < length hist
          then fmt_float True False 2
                 (fmul rt (fdiv rt (fsub rt (r_close (last hist)) (r_close (hd hist)))
                             (r_close (hd hist))) (Finite 100))
          else asc ''+0.00'') @
         asc ''%)'' @
         [10, 128202] @ asc '' **Volume**: '' @ vol @ [10, 128197] @
         asc '' **Last Updated**: '' @ r_date (last hist) @ [10, 10] @
         asc ''**7-Day Price Range**:'' @ [10] @
         asc ''- High: $'' @ fmt_float False False 2 (series_max (map r_high hist)) @ [10] @
         asc ''- Low: $'' @ fmt_float False False 2 (series_min (map r_low hist)) @ [10, 10] @
         asc ''**Recent Performance**:'' @ [10] @
         concat (map recent_line (take 5 (rev hist))) @
         trend (price_change_pct (compute_quote rt hist)) @ cap @
         (if \<not> is_crypto (upper (upper_u rt) (strip t))
          then optional_line rt info ''sector'' ([127970] @ asc '' **Sector**: '') @
               optional_line rt info ''industry'' ([128295] @ asc '' **Industry**: '')
          else []))"
proof -
  let ?T = "upper (upper_u rt) (strip t)"
  obtain info where i: "yf_info mk ?T = Inr info"
    using ok by (cases "yf_info mk ?T") (simp_all add: get_stock_data_def Let_def stock_error_prefix)
  have ne: "hist \<noteq> []"
    using ok i h by (auto simp add: get_stock_data_def Let_def no_data_found_prefix)
  obtain vol where v: "fmt_value False True 0 (PyInt (r_volume (last hist))) = Inr vol"
    using ok i h ne
    by (cases "fmt_value False True 0 (PyInt (r_volume (last hist)))")
       (simp_all add: get_stock_data_def Let_def stock_header_def quote_fmt quote_fields
          stock_error_prefix)
  obtain cap where c: "market_cap_line info = Inr cap"
    using ok i h ne v
    by (cases "market_cap_line info")
       (simp_all add: get_stock_data_def Let_def stock_header_def quote_fmt quote_fields
          stock_error_prefix)
  show ?thesis
    using i h ne v c
    by (simp add: get_stock_data_def Let_def stock_header_def quote_fmt quote_fields)
qed

section \<open>The order of floats and the extremes of a column\<close>

lemma float_le_not_nan: "float_le x y \<Longrightarrow> x \<noteq> NaN \<and> y \<noteq> NaN"
  by (cases x; cases y) (simp_all add: float_le_def float_key_def)

lemma float_le_refl: "x \<noteq> NaN \<Longrightarrow> float_le x x"
  by (cases x) (simp_all add: float_le_def float_key_def)

lemma float_le_trans: "float_le x y \<Longrightarrow> float_le y z \<Longrightarrow> float_le x z"
  by (cases x; cases y; cases z) (simp_all add: float_le_def float_key_def)

lemma float_le_total: "x \<noteq> NaN \<Longrightarrow> y \<noteq> NaN \<Longrightarrow> float_le x y \<or> float_le y x"
  by (cases x; cases y) (auto simp add: float_le_def float_key_def)

lemma float_max_cases: "float_max x y = x \<or> float_max x y = y"
  by (simp add: float_max_def)

lemma float_min_cases: "float_min x y = x \<or> float_min x y = y"
  by (simp add: float_min_def)

lemma float_max_ge:
  assumes "x \<noteq> NaN" and "y \<noteq> NaN"
  shows "float_le x (float_max x y)" and "float_le y (float_max x y)"
  using assms float_le_total [OF assms] by (auto simp add: float_max_def float_le_refl)

lemma float_min_le:
  assumes "x \<noteq> NaN" and "y \<noteq> NaN"
  shows "float_le (float_min x y) x" and "float_le (float_min x y) y"
  using assms float_le_total [OF assms] by (auto simp add: float_min_def float_le_refl)

lemma foldl_float_max_mem: "foldl float_max y ys \<in> set (y # ys)"
proof (induction ys arbitrary: y)
  case Nil
  show ?case by simp
next
  case (Cons a ys)
  show ?case using Cons [of "float_max y a"] float_max_cases [of y a] by auto
qed

lemma foldl_float_min_mem: "foldl float_min y ys \<in> set (y # ys)"
proof (induction ys arbitrary: y)
  case Nil
  show ?case by simp
next
  case (Cons a ys)
  show ?case using Cons [of "float_min y a"] float_min_cases [of y a] by auto
qed

lemma foldl_float_max_ub:
  "y \<noteq> NaN \<Longrightarrow> \<forall>x\<in>set ys. x \<noteq> NaN \<Longrightarrow> \<forall>x\<in>set (y # ys). float_le x (foldl float_max y ys)"
proof (induction ys arbitrary: y)
  case Nil
  then show ?case by (simp add: float_le_refl)
next
  case (Cons a ys)
  have m: "float_max y a \<noteq> NaN"
    using Cons.prems float_max_cases [of y a] by auto
  have ih: "\<forall>x\<in>set (float_max y a # ys). float_le x (foldl float_max (float_max y a) ys)"
    using Cons.IH [OF m] Cons.prems by simp
  have "float_le y (float_max y a)" and "float_le a (float_max y a)"
    using Cons.prems by (simp_all add: float_max_ge)
  then show ?case using ih by (auto intro: float_le_trans)
qed

lemma foldl_float_min_lb:
  "y \<noteq> NaN \<Longrightarrow> \<forall>x\<in>set ys. x \<noteq> NaN \<Longrightarrow> \<forall>x\<in>set (y # ys). float_le (foldl float_min y ys) x"
proof (induction ys arbitrary: y)
  case Nil
  then show ?case by (simp add: float_le_refl)
next
  case (Cons a ys)
  have m: "float_min y a \<noteq> NaN"
    using Cons.prems float_min_cases [of y a] by auto
  have ih: "\<forall>x\<in>set (float_min y a # ys). float_le (foldl float_min (float_min y a) ys) x"
    using Cons.IH [OF m] Cons.prems by simp
  have "float_le (float_min y a) y" and "float_le (float_min y a) a"
    using Cons.prems by (simp_all add: float_min_le)
  then show ?case using ih by (auto intro: float_le_trans)
qed

text \<open>On a column without NaN the two extremes are entries of the column and bound it.\<close>

lemma series_max_is_max:
  assumes "xs \<noteq> []" and "\<forall>x\<in>set xs. x \<noteq> NaN"
  shows "series_max xs \<in> set xs" and "\<forall>x\<in>set xs. float_le x (series_max xs)"
proof -
  obtain y ys where e: "xs = y # ys" using assms(1) by (cases xs) auto
  have f: "filter (\<lambda>x. x \<noteq> NaN) xs = xs" using assms(2) by (simp add: filter_id_conv)
  have s: "series_max xs = foldl float_max y ys"
    unfolding series_max_def f by (simp add: e)
  show "series_max xs \<in> set xs"
    unfolding s unfolding e by (rule foldl_float_max_mem)
  show "\<forall>x\<in>set xs. float_le x (series_max xs)"
    unfolding s using foldl_float_max_ub [of y ys] assms(2) unfolding e by simp
qed

lemma series_min_is_min:
  assumes "xs \<noteq> []" and "\<forall>x\<in>set xs. x \<noteq> NaN"
  shows "series_min xs \<in> set xs" and "\<forall>x\<in>set xs. float_le (series_min xs) x"
proof -
  obtain y ys where e: "xs = y # ys" using assms(1) by (cases xs) auto
  have f: "filter (\<lambda>x. x \<noteq> NaN) xs = xs" using assms(2) by (simp add: filter_id_conv)
  have s: "series_min xs = foldl float_min y ys"
    unfolding series_min_def f by (simp add: e)
  show "series_min xs \<in> set xs"
    unfolding s unfolding e by (rule foldl_float_min_mem)
  show "\<forall>x\<in>set xs. float_le (series_min xs) x"
    unfolding s using foldl_float_min_lb [of y ys] assms(2) unfolding e by simp
qed

section \<open>A sample response of the stock tool\<close>

lemma sample_ticker: "upper (upper_u sample_runtime) (strip (asc '' aapl '')) = asc ''AAPL''"
  by (simp add: upper_def strip_def asc_def isspace_def)

lemma sample_arith:
  "float_arith Sub (Finite 110) (Finite 100) = Finite 10"
  "float_arith Mul (float_arith Div (Finite 10) (Finite 100)) (Finite 100) = Finite 10"
  "round_double 2000 = Finite 2000"
  "round_double 3000000000000 = Finite 3000000000000"
  by code_simp+

lemma sample_rows:
  "last sample_history =
     \<lparr>r_date = asc ''2024-01-03'', r_close = Finite 110, r_high = Finite 112,
      r_low = Finite 108, r_volume = 2000\<rparr>"
  "hd sample_history =
     \<lparr>r_date = asc ''2024-01-02'', r_close = Finite 100, r_high = Finite 101,
      r_low = Finite 99, r_volume = 1000\<rparr>"
  "length sample_history = 2"
  "sample_history \<noteq> []"
  by (simp_all add: sample_history_def)

lemma sample_ops:
  "fsub sample_runtime = float_arith Sub"
  "fdiv sample_runtime = float_arith Div"
  "fmul sample_runtime = float_arith Mul"
  by (simp_all add: sample_runtime_def)

lemma sample_lookup:
  "yf_info (sample_market hist) (asc ''AAPL'') = Inr sample_info"
  "yf_history (sample_market hist) (asc ''AAPL'') = Inr hist"
  by (simp_all add: sample_market_def)

lemma sample_extremes:
  "series_max (map r_high sample_history) = Finite 112"
  "series_min (map r_low sample_history) = Finite 99"
  by (simp_all add: sample_history_def series_max_def series_min_def float_max_def
        float_min_def float_le_def float_key_def)

lemma sample_info_lines:
  "\<not> is_crypto (asc ''AAPL'')"
  "company_name sample_runtime sample_info (asc ''AAPL'') = asc ''Apple Inc.''"
  "market_cap_line sample_info =
     Inr ([10, 128176] @ asc '' **Market Cap**: $3,000,000,000,000'')"
  "optional_line sample_runtime sample_info ''sector'' (127970 # asc '' **Sector**: '') =
     [10, 127970] @ asc '' **Sector**: Technology''"
  "optional_line sample_runtime sample_info ''industry'' (128295 # asc '' **Industry**: '') = []"
  by (simp_all add: is_crypto_def company_name_def market_cap_line_def optional_line_def
        sample_info_def truthy_def jstr_def fmt_value_def float_of_int_def sample_arith fmt_eval
        asc_def)

lemma sample_response:
  "get_stock_data sample_runtime (sample_market sample_history) (asc '' aapl '') =
     [10, 128202] @ asc '' **Stock Information: Apple Inc. (AAPL)**'' @ [10, 10, 128181] @
     asc '' **Current Price**: $110.00'' @ [10, 128200] @
     asc '' **7-Day Change**: $+10.00 (+10.00%)'' @ [10, 128202] @
     asc '' **Volume**: 2,000'' @ [10, 128197] @
     asc '' **Last Updated**: 2024-01-03'' @ [10, 10] @
     asc ''**7-Day Price Range**:'' @ [10] @
     asc ''- High: $112.00'' @ [10] @
     asc ''- Low: $99.00'' @ [10, 10] @
     asc ''**Recent Performance**:'' @ [10] @
     asc ''- 2024-01-03: $110.00'' @ [10] @
     asc ''- 2024-01-02: $100.00'' @ [10] @
     [10, 128640] @ asc '' **Trend**: Strong upward momentum'' @
     [10, 128176] @ asc '' **Market Cap**: $3,000,000,000,000'' @
     [10, 127970] @ asc '' **Sector**: Technology''"
proof -
  have r: "concat (map recent_line (rev sample_history)) =
             asc ''- 2024-01-03: $110.00'' @ [10] @ asc ''- 2024-01-02: $100.00'' @ [10]"
    by (simp add: sample_history_def recent_line_def fmt_eval asc_def)
  have t: "trend (PyFloat (Finite 10)) = [10, 128640] @ asc '' **Trend**: Strong upward momentum''"
    by (simp add: trend_def num_gt_def float_gt_def)
  have v: "fmt_value False True 0 (PyInt 2000) = Inr (asc ''2,000'')"
    by (simp add: fmt_value_def float_of_int_def sample_arith fmt_eval asc_def)
  have "get_stock_data sample_runtime (sample_market sample_history) (asc '' aapl '') =
     [10, 128202] @ asc '' **'' @ asc ''Stock'' @ asc '' Information: '' @ asc ''Apple Inc.'' @
     asc '' ('' @ asc ''AAPL'' @ asc '')**'' @ [10, 10, 128181] @
     asc '' **Current Price**: $'' @ fmt_float False False 2 (Finite 110) @ [10, 128200] @
     asc '' **7-Day Change**: $'' @ fmt_float True False 2 (Finite 10) @ asc '' ('' @
     fmt_float True False 2 (Finite 10) @ asc ''%)'' @ [10, 128202] @
     asc '' **Volume**: '' @ asc ''2,000'' @ [10, 128197] @
     asc '' **Last Updated**: '' @ asc ''2024-01-03'' @ [10, 10] @
     asc ''**7-Day Price Range**:'' @ [10] @
     asc ''- High: $'' @ fmt_float False False 2 (Finite 112) @ [10] @
     asc ''- Low: $'' @ fmt_float False False 2 (Finite 99) @ [10, 10] @
     asc ''**Recent Performance**:'' @ [10] @
     (asc ''- 2024-01-03: $110.00'' @ [10] @ asc ''- 2024-01-02: $100.00'' @ [10]) @
     ([10, 128640] @ asc '' **Trend**: Strong upward momentum'') @
     ([10, 128176] @ asc '' **Market Cap**: $3,000,000,000,000'') @
     ([10, 127970] @ asc '' **Sector**: Technology'')"
    by (simp add: get_stock_data_def Let_def sample_ticker sample_lookup sample_rows
          sample_info_lines r t v stock_header_def quote_change quote_fields fmt_value_float
          sample_ops sample_arith sample_extremes)
  then show ?thesis
    by (simp add: fmt_eval asc_def)
qed


section \<open>The thresholds of the sentiment label\<close>



section \<open>The Wikipedia block\<close>

lemma join_Cons: "join sep (c # cs) = c @ concat (map (\<lambda>x. sep @ x) cs)"
  by (induction cs arbitrary: c) simp_all

text \<open>
  Claim C9. For a query that is not blank and whose page exists (the lookup and the reads
  of the page's attributes succeed), \<open>search_wikipedia\<close> returns the block made of the
  title, the summary cut to its first 800 characters with \<open>...\<close> appended exactly when
  the summary is longer than 800 characters, the source URL, and the first five category
  labels, each after the first preceded by a comma and a space, or \<open>N/A\<close> when the page
  has no category.
\<close>

theorem wikipedia_summary_block:
  assumes "\<not> blank query"
    and "wiki (strip query) = Inr page"
    and "page_exists page = Inr True"
    and "page_summary page = Inr summary"
    and "page_title page = Inr title"
    and "page_fullurl page = Inr url"
    and "page_categories page = Inr cats"
  shows "search_wikipedia wiki query =
           [10, 128218] @ asc '' **Wikipedia Summary: '' @ title @ asc ''**'' @ [10, 10] @
           (if 800 < length summary then take 800 summary @ asc ''...'' else summary) @
           [10, 10, 128279] @ asc '' **Source**: '' @ url @ [10, 10, 128161] @
           asc '' **Categories**: '' @
           (case take 5 cats of
              [] \<Rightarrow> asc ''N/A''
            | c # cs \<Rightarrow> c @ concat (map (\<lambda>x. asc '', '' @ x) cs)) @ [10]"
proof -
  have "search_wikipedia wiki query = wiki_response title summary url cats"
    unfolding search_wikipedia_def Let_def using assms by simp
  moreover have "categories_text cats =
      (case take 5 cats of [] \<Rightarrow> asc ''N/A'' | c # cs \<Rightarrow> c @ concat (map (\<lambda>x. asc '', '' @ x) cs))"
    by (cases "take 5 cats") (auto simp add: categories_text_def join_Cons)
  ultimately show ?thesis
    unfolding wiki_response_def shorten_def by simp
qed

text \<open>
  A page with a summary of 801 characters and six categories, looked up under the
  stripped query: the block holds 800 characters of the summary, the ellipsis and the
  first five labels. A page with a short summary and no category: the summary is whole
  and the categories are \<open>N/A\<close>.
\<close>

theorem wikipedia_summary_block_witness:
  "search_wikipedia
     (\<lambda>q. if q = asc ''Tesla''
           then Inr \<lparr>page_exists = Inr True, page_summary = Inr (replicate 801 97),
                      page_title = Inr (asc ''Tesla, Inc.''),
                      page_fullurl = Inr (asc ''https://en.wikipedia.org/wiki/Tesla''),
                      page_categories =
                        Inr [asc ''Category:A'', asc ''Category:B'', asc ''Category:C'',
                             asc ''Category:D'', asc ''Category:E'', asc ''Category:F'']\<rparr>
           else Inl (Exn OtherException []))
     (asc '' Tesla '') =
   [10, 128218] @ asc '' **Wikipedia Summary: Tesla, Inc.**'' @ [10, 10] @
   replicate 800 97 @ asc ''...'' @
   [10, 10, 128279] @ asc '' **Source**: https://en.wikipedia.org/wiki/Tesla'' @
   [10, 10, 128161] @
   asc '' **Categories**: Category:A, Category:B, Category:C, Category:D, Category:E'' @ [10]
   \<and>
   search_wikipedia
     (\<lambda>q. Inr \<lparr>page_exists = Inr True, page_summary = Inr (asc ''A car maker.''),
               page_title = Inr (asc ''Tesla''), page_fullurl = Inr (asc ''https://w/Tesla''),
               page_categories = Inr []\<rparr>)
     (asc ''Tesla'') =
   [10, 128218] @ asc '' **Wikipedia Summary: Tesla**'' @ [10, 10] @ asc ''A car maker.'' @
   [10, 10, 128279] @ asc '' **Source**: https://w/Tesla'' @ [10, 10, 128161] @
   asc '' **Categories**: N/A'' @ [10]"
proof -
  let ?p = "\<lparr>page_exists = Inr True, page_summary = Inr (replicate 801 97),
             page_title = Inr (asc ''Tesla, Inc.''),
             page_fullurl = Inr (asc ''https://en.wikipedia.org/wiki/Tesla''),
             page_categories =
               Inr [asc ''Category:A'', asc ''Category:B'', asc ''Category:C'',
                    asc ''Category:D'', asc ''Category:E'', asc ''Category:F'']\<rparr>"
  let ?w = "\<lambda>q. if q = asc ''Tesla'' then Inr ?p else Inl (Exn OtherException [])"
  let ?p' = "\<lparr>page_exists = Inr True, page_summary = Inr (asc ''A car maker.''),
              page_title = Inr (asc ''Tesla''), page_fullurl = Inr (asc ''https://w/Tesla''),
              page_categories = Inr []\<rparr>"
  have b: "\<not> blank (asc '' Tesla '')" and b': "\<not> blank (asc ''Tesla'')"
    by (simp_all add: blank_iff asc_def isspace_def)
  have s: "strip (asc '' Tesla '') = asc ''Tesla''"
    by (simp add: strip_def asc_def isspace_def)
  have w: "?w (strip (asc '' Tesla '')) = Inr ?p"
    by (simp add: s)
  have "search_wikipedia ?w (asc '' Tesla '') =
          [10, 128218] @ asc '' **Wikipedia Summary: Tesla, Inc.**'' @ [10, 10] @
          replicate 800 97 @ asc ''...'' @
          [10, 10, 128279] @ asc '' **Source**: https://en.wikipedia.org/wiki/Tesla'' @
          [10, 10, 128161] @
          asc '' **Categories**: Category:A, Category:B, Category:C, Category:D, Category:E'' @
          [10]"
    using wikipedia_summary_block [where wiki = ?w and query = "asc '' Tesla ''"
        and page = ?p and summary = "replicate 801 97" and title = "asc ''Tesla, Inc.''"
        and url = "asc ''https://en.wikipedia.org/wiki/Tesla''"
        and cats = "[asc ''Category:A'', asc ''Category:B'', asc ''Category:C'',
                     asc ''Category:D'', asc ''Category:E'', asc ''Category:F'']", OF b w]
    by (simp add: asc_def)
  moreover have "search_wikipedia (\<lambda>q. Inr ?p') (asc ''Tesla'') =
          [10, 128218] @ asc '' **Wikipedia Summary: Tesla**'' @ [10, 10] @
          asc ''A car maker.'' @
          [10, 10, 128279] @ asc '' **Source**: https://w/Tesla'' @ [10, 10, 128161] @
          asc '' **Categories**: N/A'' @ [10]"
    using wikipedia_summary_block [OF b', of "\<lambda>q. Inr ?p'" ?p' "asc ''A car maker.''"
        "asc ''Tesla''" "asc ''https://w/Tesla''" "[]"]
    by (simp add: asc_def)
  ultimately show ?thesis by (rule conjI)
qed

section \<open>Claims on the stock tool\<close>

text \<open>
  Claim C5. When the lookup of \<open>info\<close> succeeds and the seven-day history is empty,
  \<open>get_stock_data\<close> returns exactly the message that no data was found, naming the
  ticker stripped and in upper case. The message holds none of the price fields: every
  dollar sign in it is one of the ticker's own.
\<close>

theorem empty_history_no_data:
  assumes "yf_info mk (upper (upper_u rt) (strip t)) = Inr info"
    and "yf_history mk (upper (upper_u rt) (strip t)) = Inr []"
  shows "get_stock_data rt mk t =
           [10060] @ asc '' No data found for ticker '' @ [39] @
           upper (upper_u rt) (strip t) @ [39] @
           asc ''. Please verify the ticker symbol is correct.''
         \<and> (36 \<in> set (get_stock_data rt mk t)) = (36 \<in> set (upper (upper_u rt) (strip t)))"
proof -
  have a: "36 \<notin> set (asc '' No data found for ticker '')"
    and b: "36 \<notin> set (asc ''. Please verify the ticker symbol is correct.'')"
    by (simp_all add: asc_def)
  have "get_stock_data rt mk t = no_data_found (upper (upper_u rt) (strip t))"
    using assms by (simp add: get_stock_data_def Let_def)
  then show ?thesis using a b by (simp add: no_data_found_def cross_mark_def)
qed

text \<open>The sample market with an empty history, asked for \<open>aapl\<close> between two blanks.\<close>

theorem empty_history_no_data_witness:
  "get_stock_data sample_runtime (sample_market []) (asc '' aapl '') =
     [10060] @ asc '' No data found for ticker '' @ [39] @ asc ''AAPL'' @ [39] @
     asc ''. Please verify the ticker symbol is correct.''
   \<and> 36 \<notin> set (get_stock_data sample_runtime (sample_market []) (asc '' aapl ''))"
proof -
  have i: "yf_info (sample_market [])
             (upper (upper_u sample_runtime) (strip (asc '' aapl ''))) = Inr sample_info"
    and h: "yf_history (sample_market [])
             (upper (upper_u sample_runtime) (strip (asc '' aapl ''))) = Inr []"
    by (simp_all add: sample_ticker sample_lookup)
  have n: "36 \<notin> set (asc ''AAPL'')"
    by (simp add: asc_def)
  have e: "get_stock_data sample_runtime (sample_market []) (asc '' aapl '') =
             [10060] @ asc '' No data found for ticker '' @ [39] @ asc ''AAPL'' @ [39] @
             asc ''. Please verify the ticker symbol is correct.''"
    and m: "(36 \<in> set (get_stock_data sample_runtime (sample_market []) (asc '' aapl ''))) =
             (36 \<in> set (asc ''AAPL''))"
    using empty_history_no_data [OF i h] unfolding sample_ticker by blast+
  show ?thesis
    using e m n by blast
qed



text \<open>
  Claim C8. When every row of the history has a High at least its Low and the response
  is a success, the history is not empty and the response holds the ticker in
  parentheses at the end of its title line, the current-price line, and the high and
  low lines of the range. The high shown is an entry of the High column and at least
  every entry of it, the low shown is an entry of the Low column and at most every
  entry of it, and the high is at least the low.
\<close>

theorem high_low_pair:
  assumes "yf_history mk (upper (upper_u rt) (strip t)) = Inr hist"
    and "\<forall>r\<in>set hist. float_le (r_low r) (r_high r)"
    and "\<not> prefix cross_mark (get_stock_data rt mk t)"
  shows "hist \<noteq> [] \<and>
         series_max (map r_high hist) \<in> set (map r_high hist) \<and>
         (\<forall>r\<in>set hist. float_le (r_high r) (series_max (map r_high hist))) \<and>
         series_min (map r_low hist) \<in> set (map r_low hist) \<and>
         (\<forall>r\<in>set hist. float_le (series_min (map r_low hist)) (r_low r)) \<and>
         float_le (series_min (map r_low hist)) (series_max (map r_high hist)) \<and>
         (\<exists>pre mid post.
            get_stock_data rt mk t =
              pre @ asc '' ('' @ upper (upper_u rt) (strip t) @ asc '')**'' @
              [10, 10, 128181] @ asc '' **Current Price**: $'' @
              fmt_float False False 2 (r_close (last hist)) @ mid @
              asc ''**7-Day Price Range**:'' @ [10] @
              asc ''- High: $'' @ fmt_float False False 2 (series_max (map r_high hist)) @ [10] @
              asc ''- Low: $'' @ fmt_float False False 2 (series_min (map r_low hist)) @ post)"
proof -
  let ?T = "upper (upper_u rt) (strip t)"
  obtain info vol cap where ne: "hist \<noteq> []" and e: "get_stock_data rt mk t =
       [10, 128202] @ asc '' **'' @
       (if is_crypto ?T then asc ''Cryptocurrency'' else asc ''Stock'') @
       asc '' Information: '' @
       company_name rt info ?T @
       asc '' ('' @ ?T @ asc '')**'' @ [10, 10, 128181] @
       asc '' **Current Price**: $'' @
       fmt_float False False 2 (r_close (last hist)) @ [10, 128200] @
       asc '' **7-Day Change**: $'' @
       (if 1 < length hist
        then fmt_float True False 2 (fsub rt (r_close (last hist)) (r_close (hd hist)))
        else asc ''+0.00'') @
       asc '' ('' @
       (if 1 < length hist
        then fmt_float True False 2
               (fmul rt (fdiv rt (fsub rt (r_close (last hist)) (r_close (hd hist)))
                           (r_close (hd hist))) (Finite 100))
        else asc ''+0.00'') @
       asc ''%)'' @
       [10, 128202] @ asc '' **Volume**: '' @ vol @ [10, 128197] @
       asc '' **Last Updated**: '' @ r_date (last hist) @ [10, 10] @
       asc ''**7-Day Price Range**:'' @ [10] @
       asc ''- High: $'' @ fmt_float False False 2 (series_max (map r_high hist)) @ [10] @
       asc ''- Low: $'' @ fmt_float False False 2 (series_min (map r_low hist)) @ [10, 10] @
       asc ''**Recent Performance**:'' @ [10] @
       concat (map recent_line (take 5 (rev hist))) @
       trend (price_change_pct (compute_quote rt hist)) @ cap @
       (if \<not> is_crypto ?T
        then optional_line rt info ''sector'' ([127970] @ asc '' **Sector**: '') @
             optional_line rt info ''industry'' ([128295] @ asc '' **Industry**: '')
        else [])"
    using stock_success [OF assms(3) assms(1)] by blast
  have ex: "\<exists>pre mid post.
            get_stock_data rt mk t =
              pre @ asc '' ('' @ ?T @ asc '')**'' @
              [10, 10, 128181] @ asc '' **Current Price**: $'' @
              fmt_float False False 2 (r_close (last hist)) @ mid @
              asc ''**7-Day Price Range**:'' @ [10] @
              asc ''- High: $'' @ fmt_float False False 2 (series_max (map r_high hist)) @ [10] @
              asc ''- Low: $'' @ fmt_float False False 2 (series_min (map r_low hist)) @ post"
    by (rule exI [of _ "[10, 128202] @ asc '' **'' @
           (if is_crypto ?T then asc ''Cryptocurrency'' else asc ''Stock'') @
           asc '' Information: '' @ company_name rt info ?T"],
        rule exI [of _ "[10, 128200] @
           asc '' **7-Day Change**: $'' @
           (if 1 < length hist
            then fmt_float True False 2 (fsub rt (r_close (last hist)) (r_close (hd hist)))
            else asc ''+0.00'') @
           asc '' ('' @
           (if 1 < length hist
            then fmt_float True False 2
                   (fmul rt (fdiv rt (fsub rt (r_close (last hist)) (r_close (hd hist)))
                               (r_close (hd hist))) (Finite 100))
            else asc ''+0.00'') @
           asc ''%)'' @
           [10, 128202] @ asc '' **Volume**: '' @ vol @ [10, 128197] @
           asc '' **Last Updated**: '' @ r_date (last hist) @ [10, 10]"],
        rule exI [of _ "[10, 10] @
           asc ''**Recent Performance**:'' @ [10] @
           concat (map recent_line (take 5 (rev hist))) @
           trend (price_change_pct (compute_quote rt hist)) @ cap @
           (if \<not> is_crypto ?T
            then optional_line rt info ''sector'' ([127970] @ asc '' **Sector**: '') @
                 optional_line rt info ''industry'' ([128295] @ asc '' **Industry**: '')
            else [])"])
       (simp add: e)
  have nh: "map r_high hist \<noteq> []" "\<forall>x\<in>set (map r_high hist). x \<noteq> NaN"
    and nl: "map r_low hist \<noteq> []" "\<forall>x\<in>set (map r_low hist). x \<noteq> NaN"
    using ne assms(2) by (auto dest: float_le_not_nan)
  have hi: "series_max (map r_high hist) \<in> set (map r_high hist)"
    and hb: "\<forall>r\<in>set hist. float_le (r_high r) (series_max (map r_high hist))"
    using series_max_is_max [OF nh] by simp_all
  have lo: "series_min (map r_low hist) \<in> set (map r_low hist)"
    and lb: "\<forall>r\<in>set hist. float_le (series_min (map r_low hist)) (r_low r)"
    using series_min_is_min [OF nl] by simp_all
  obtain r where r: "r \<in> set hist" using ne by (cases hist) auto
  have "float_le (series_min (map r_low hist)) (r_low r)"
    and "float_le (r_low r) (r_high r)"
    and "float_le (r_high r) (series_max (map r_high hist))"
    using r lb hb assms(2) by auto
  then have le: "float_le (series_min (map r_low hist)) (series_max (map r_high hist))"
    by (blast intro: float_le_trans)
  show ?thesis
    using ne hi hb lo lb le ex by (intro conjI)
qed

text \<open>
  The sample history: each High is at least the Low of its row, the response is a
  success, and it shows the high 112.00 and the low 99.00.
\<close>

theorem high_low_pair_witness:
  "list_all (\<lambda>r. float_le (r_low r) (r_high r)) sample_history \<and>
   series_max (map r_high sample_history) = Finite 112 \<and>
   series_min (map r_low sample_history) = Finite 99 \<and>
   float_le (series_min (map r_low sample_history)) (series_max (map r_high sample_history)) \<and>
   get_stock_data sample_runtime (sample_market sample_history) (asc '' aapl '') =
     [10, 128202] @ asc '' **Stock Information: Apple Inc. (AAPL)**'' @ [10, 10, 128181] @
     asc '' **Current Price**: $110.00'' @ [10, 128200] @
     asc '' **7-Day Change**: $+10.00 (+10.00%)'' @ [10, 128202] @
     asc '' **Volume**: 2,000'' @ [10, 128197] @
     asc '' **Last Updated**: 2024-01-03'' @ [10, 10] @
     asc ''**7-Day Price Range**:'' @ [10] @
     asc ''- High: $112.00'' @ [10] @
     asc ''- Low: $99.00'' @ [10, 10] @
     asc ''**Recent Performance**:'' @ [10] @
     asc ''- 2024-01-03: $110.00'' @ [10] @
     asc ''- 2024-01-02: $100.00'' @ [10] @
     [10, 128640] @ asc '' **Trend**: Strong upward momentum'' @
     [10, 128176] @ asc '' **Market Cap**: $3,000,000,000,000'' @
     [10, 127970] @ asc '' **Sector**: Technology''"
proof -
  have h: "yf_history (sample_market sample_history)
             (upper (upper_u sample_runtime) (strip (asc '' aapl ''))) = Inr sample_history"
    by (simp add: sample_ticker sample_lookup)
  have rows: "\<forall>r\<in>set sample_history. float_le (r_low r) (r_high r)"
    by (simp add: sample_history_def float_le_def float_key_def)
  have ok: "\<not> prefix cross_mark
              (get_stock_data sample_runtime (sample_market sample_history) (asc '' aapl ''))"
    unfolding sample_response by (simp add: cross_mark_def)
  have le: "float_le (series_min (map r_low sample_history))
              (series_max (map r_high sample_history))"
    using high_low_pair [OF h rows ok] by blast
  have la: "list_all (\<lambda>r. float_le (r_low r) (r_high r)) sample_history"
    using rows by (simp add: list_all_iff)
  show ?thesis
    using la sample_extremes le sample_response by (intro conjI)
qed

section \<open>Claim on the sentiment tool\<close>




end
